theory Spec2Isabelle
  imports Main
begin

section \<open>The dataset model of src/dataset.ts\<close>

text \<open>
  The class \<open>HdfDatasetModelBase\<close> is embedded as a record of its private fields
  together with what it sends out: the signals it emits and the requests it issues.
  Every method is a function from the state before the call to a result and the state
  after it. A promise is modelled by its two halves: the synchronous part that issues a
  request and leaves it in flight, and the handler that runs when the request settles.
  Row, column and shape numbers are integers (\<open>int\<close>); JavaScript's other numbers
  (fractions, NaN, values beyond the exactly representable integers) are outside the model.
  Observers of the signals are taken not to call back into the model while a signal is
  being emitted.
\<close>

subsection \<open>JavaScript primitives used by the class\<close>

text \<open>The remainder operator \<open>%\<close>: the result has the sign of the dividend.\<close>

definition js_rem :: "int \<Rightarrow> int \<Rightarrow> int" where
  "js_rem a b = (if a < 0 then - ((- a) mod \<bar>b\<bar>) else a mod \<bar>b\<bar>)"

text \<open>
  Reading an array at an index: \<open>undefined\<close> (here \<open>None\<close>) outside the array.
\<close>

definition js_nth :: "'a list \<Rightarrow> int \<Rightarrow> 'a option" where
  "js_nth xs i = (if 0 \<le> i \<and> i < int (length xs) then Some (xs ! nat i) else None)"

text \<open>
  The conversion of a number to a string, as a template literal does it, for safe
  integers: decimal digits, with a leading minus sign for a negative number.
\<close>

definition digit_char :: "nat \<Rightarrow> char" where
  "digit_char d = ''0123456789'' ! d"

function nat_digits :: "nat \<Rightarrow> string" where
  "nat_digits n =
     (if n < 10 then [digit_char n] else nat_digits (n div 10) @ [digit_char (n mod 10)])"
  by pat_completeness auto
termination
  by (relation "measure (\<lambda>n. n)") auto

declare nat_digits.simps [simp del]

definition num_to_string :: "int \<Rightarrow> string" where
  "num_to_string n =
     (if n < 0 then CHR ''-'' # nat_digits (nat (- n)) else nat_digits (nat n))"

text \<open>
  The integers that a JavaScript number holds exactly and prints in plain decimal
  digits (up to \<open>Number.MAX_SAFE_INTEGER\<close>, which is 2 to the 53 minus 1). Outside
  this range the sum of two numbers is rounded and large values print with an exponent,
  so \<open>num_to_string\<close> and integer arithmetic stand for the code only inside it.
\<close>

definition safe_integer :: "int \<Rightarrow> bool" where
  "safe_integer n = (- 9007199254740991 \<le> n \<and> n \<le> 9007199254740991)"

text \<open>
  The number a decimal string stands for, to say what "the string of a number" means:
  an optional minus sign, then one digit or more. It is not part of the class.
\<close>

definition digit_val :: "char \<Rightarrow> nat option" where
  "digit_val c =
     (if 48 \<le> (of_char c :: nat) \<and> (of_char c :: nat) \<le> 57
      then Some (of_char c - 48) else None)"

fun digits_value :: "nat \<Rightarrow> string \<Rightarrow> nat option" where
  "digits_value acc [] = Some acc"
| "digits_value acc (c # cs) =
     (case digit_val c of None \<Rightarrow> None | Some d \<Rightarrow> digits_value (acc * 10 + d) cs)"

definition string_to_nat :: "string \<Rightarrow> nat option" where
  "string_to_nat s = (if s = [] then None else digits_value 0 s)"

definition string_to_num :: "string \<Rightarrow> int option" where
  "string_to_num s =
     (case s of
        [] \<Rightarrow> None
      | c # t \<Rightarrow>
          (if c = CHR ''-'' then map_option (\<lambda>n. - int n) (string_to_nat t)
           else map_option int (string_to_nat s)))"

text \<open>The values a call of \<open>data\<close> can return, and the errors a call can throw.\<close>

datatype 'v jsval = Null | Undefined | Str string | Cell 'v

datatype error = TypeError | RequestError string

subsection \<open>Data model\<close>

text \<open>\<open>ISlice\<close> and the sentinel \<open>noneSlice()\<close> of slice.ts.\<close>

record slice =
  start :: int
  stop :: int
  step :: int

text \<open>
  Modelled from the spec: \<open>noneSlice\<close> is defined in slice.ts, which is not among the
  sources; the specification gives the sentinel as start 0, stop 0, step 1.
\<close>

definition noneSlice :: slice where
  "noneSlice = \<lparr>start = 0, stop = 0, step = 1\<rparr>"

text \<open>
  The fields of \<open>IDatasetMeta\<close> (hdf.ts) that the class reads, and the response of
  \<open>hdfContentsRequest\<close>, whose \<open>content\<close> may be missing.
\<close>

record dataset_meta =
  meta_ixstr :: string
  visshape :: "int list"
  vislabels :: "slice list"

record hdf_contents =
  content :: "dataset_meta option"

text \<open>The regions of \<open>DataModel\<close>: of rows, of columns and of cells.\<close>

datatype row_region = RBody | RColumnHeader
datatype column_region = CBody | CRowHeader
datatype cell_region = Body | RowHeader | ColumnHeader | CornerHeader

text \<open>
  An entry of \<open>_blocks[rowBlock][colBlock]\<close>: the string \<open>"busy"\<close> or the array
  received. No entry is \<open>undefined\<close>.
\<close>

datatype 'v block = Busy | Loaded "'v list list"

text \<open>The arguments of \<open>emitChanged\<close>, and the \<open>refreshed\<close> signal.\<close>

datatype signal =
    RowsRemoved int int
  | ColumnsRemoved int int
  | RowsInserted int int
  | ColumnsInserted int int
  | ModelReset
  | CellsChanged int int int int
  | Refreshed string

text \<open>
  The parameters of a contents request and of a data request, and a block fetch in
  flight: the request's parameters and the variables its handler has captured.
\<close>

record contents_params =
  c_fpath :: string
  c_uri :: string
  c_ixstr :: string

record data_params =
  d_fpath :: string
  d_uri :: string
  d_ixstr :: string
  subixstr :: string

record fetch =
  params :: data_params
  f_rowBlock :: int
  f_colBlock :: int
  f_row :: int
  f_column :: int
  f_rowStop :: int
  f_colStop :: int

text \<open>
  The model: the fields \<open>_fpath\<close>, \<open>_uri\<close>, \<open>_meta\<close> (undefined until the
  first \<open>_refresh\<close>), \<open>_ixstr\<close> and \<open>_blocks\<close>, whether the ready promise has
  been resolved, and around them the signals emitted so far (oldest first), every data
  request sent so far, and the data and contents requests still in flight. The data of
  a response is an array of arrays of cell values of some type \<open>'v\<close>. The block size
  is never assigned after its initialisation to 100, so it is a constant.
\<close>

record 'v model =
  fpath :: string
  uri :: string
  meta :: "dataset_meta option"
  ixstr :: string
  blocks :: "int \<rightharpoonup> (int \<rightharpoonup> 'v block)"
  ready :: bool
  emitted :: "signal list"
  requested :: "fetch list"
  data_inflight :: "fetch list"
  contents_inflight :: "contents_params list"

definition blockSize :: int where
  "blockSize = 100"

text \<open>The model as the constructor leaves it.\<close>

definition new_model :: "'v model" where
  "new_model = \<lparr>fpath = [], uri = [], meta = None, ixstr = [], blocks = Map.empty,
     ready = False, emitted = [], requested = [], data_inflight = [],
     contents_inflight = []\<rparr>"

subsection \<open>Accessors\<close>

text \<open>\<open>x || 0\<close> for a number that may be \<open>undefined\<close>.\<close>

definition or_zero :: "int option \<Rightarrow> int" where
  "or_zero x = (case x of None \<Rightarrow> 0 | Some v \<Rightarrow> (if v = 0 then 0 else v))"

definition columnCount :: "column_region \<Rightarrow> 'v model \<Rightarrow> int" where
  "columnCount region m =
     (if region = CBody
      then or_zero (case meta m of None \<Rightarrow> None | Some mt \<Rightarrow> js_nth (visshape mt) 1)
      else 1)"

definition rowCount :: "row_region \<Rightarrow> 'v model \<Rightarrow> int" where
  "rowCount region m =
     (if region = RBody
      then or_zero (case meta m of None \<Rightarrow> None | Some mt \<Rightarrow> js_nth (visshape mt) 0)
      else 1)"

definition rowSlice :: "'v model \<Rightarrow> slice" where
  "rowSlice m =
     (case (case meta m of None \<Rightarrow> None | Some mt \<Rightarrow> js_nth (vislabels mt) 0) of
        None \<Rightarrow> noneSlice | Some s \<Rightarrow> s)"

definition colSlice :: "'v model \<Rightarrow> slice" where
  "colSlice m =
     (case (case meta m of None \<Rightarrow> None | Some mt \<Rightarrow> js_nth (vislabels mt) 1) of
        None \<Rightarrow> noneSlice | Some s \<Rightarrow> s)"

subsection \<open>Fetching a block\<close>

text \<open>
  \<open>_fetchBlock\<close>, the part that runs at once: it marks the block busy, which throws when
  the row object is missing, clips the block at the grid edge, and sends the request.
\<close>

definition subix_string :: "int \<Rightarrow> int \<Rightarrow> int \<Rightarrow> int \<Rightarrow> string" where
  "subix_string row rowStop column colStop =
     num_to_string row @ '':'' @ num_to_string rowStop @ '', '' @
     num_to_string column @ '':'' @ num_to_string colStop"

definition fetchBlock :: "int \<Rightarrow> int \<Rightarrow> 'v model \<Rightarrow> (error + unit) \<times> 'v model" where
  "fetchBlock rowBlock colBlock m =
     (case blocks m rowBlock of
        None \<Rightarrow> (Inl TypeError, m)
      | Some rowObj \<Rightarrow>
          (let m1 = m\<lparr>blocks := (blocks m)(rowBlock \<mapsto> rowObj(colBlock \<mapsto> Busy))\<rparr>;
               row = rowBlock * blockSize;
               rowStop = min (row + blockSize) (rowCount RBody m1);
               column = colBlock * blockSize;
               colStop = min (column + blockSize) (columnCount CBody m1);
               f = \<lparr>params = \<lparr>d_fpath = fpath m1, d_uri = uri m1, d_ixstr = ixstr m1,
                                subixstr = subix_string row rowStop column colStop\<rparr>,
                    f_rowBlock = rowBlock, f_colBlock = colBlock, f_row = row,
                    f_column = column, f_rowStop = rowStop, f_colStop = colStop\<rparr>
           in (Inr (), m1\<lparr>requested := requested m1 @ [f],
                           data_inflight := data_inflight m1 @ [f]\<rparr>)))"

text \<open>
  The handler \<open>_fetchBlock\<close> passes to \<open>then\<close>: it runs when the data arrive, on the
  model as it is by then. Storing the data throws when the row object is missing.
\<close>

definition fetchBlock_then ::
  "fetch \<Rightarrow> 'v list list \<Rightarrow> 'v model \<Rightarrow> (error + unit) \<times> 'v model" where
  "fetchBlock_then f d m =
     (case blocks m (f_rowBlock f) of
        None \<Rightarrow> (Inl TypeError, m)
      | Some rowObj \<Rightarrow>
          (Inr (),
           m\<lparr>blocks := (blocks m)(f_rowBlock f \<mapsto> rowObj(f_colBlock f \<mapsto> Loaded d)),
             emitted := emitted m @
               [CellsChanged (f_row f) (f_column f)
                  (f_rowStop f - f_row f) (f_colStop f - f_column f)]\<rparr>))"

subsection \<open>Reading a cell\<close>

text \<open>
  \<open>block[relRow][relCol]\<close>: reading a property of \<open>undefined\<close> throws. In
  \<open>data\<close>, \<open>row - relRow\<close> is a multiple of the block size, so the division
  \<open>/\<close> that gives the block index is a division of integers.
\<close>

definition cell_at :: "'v list list \<Rightarrow> int \<Rightarrow> int \<Rightarrow> error + 'v jsval" where
  "cell_at d relRow relCol =
     (case js_nth d relRow of
        None \<Rightarrow> Inl TypeError
      | Some r \<Rightarrow> (case js_nth r relCol of None \<Rightarrow> Inr Undefined | Some v \<Rightarrow> Inr (Cell v)))"

definition data ::
  "cell_region \<Rightarrow> int \<Rightarrow> int \<Rightarrow> 'v model \<Rightarrow> (error + 'v jsval) \<times> 'v model" where
  "data region row col m =
     (if region = RowHeader
      then (Inr (Str (num_to_string (start (rowSlice m) + row * step (rowSlice m)))), m)
      else if region = ColumnHeader
      then (Inr (Str (num_to_string (start (colSlice m) + col * step (colSlice m)))), m)
      else if region = CornerHeader
      then (Inr Null, m)
      else
        (let relRow = js_rem row blockSize;
             relCol = js_rem col blockSize;
             rowBlock = (row - relRow) div blockSize;
             colBlock = (col - relCol) div blockSize
         in (case blocks m rowBlock of
               Some rowObj \<Rightarrow>
                 (case rowObj colBlock of
                    Some Busy \<Rightarrow> (Inr Null, m)
                  | Some (Loaded d) \<Rightarrow> (cell_at d relRow relCol, m)
                  | None \<Rightarrow>
                      (case fetchBlock rowBlock colBlock m of
                         (Inl e, m1) \<Rightarrow> (Inl e, m1)
                       | (Inr u, m1) \<Rightarrow> (Inr Null, m1)))
             | None \<Rightarrow>
                 (case fetchBlock rowBlock colBlock
                         (m\<lparr>blocks := (blocks m)(rowBlock \<mapsto> Map.empty)\<rparr>) of
                    (Inl e, m1) \<Rightarrow> (Inl e, m1)
                  | (Inr u, m1) \<Rightarrow> (Inr Null, m1)))))"

subsection \<open>Refreshing\<close>

text \<open>
  \<open>_refresh\<close>: it has no \<open>await\<close>, so its whole body runs in one piece.
\<close>

definition refresh_impl :: "dataset_meta option \<Rightarrow> 'v model \<Rightarrow> 'v model" where
  "refresh_impl mt m =
     (let oldRowCount = rowCount RBody m;
          oldColCount = columnCount CBody m;
          m1 = m\<lparr>meta := mt\<rparr>;
          m2 = m1\<lparr>blocks := Map.empty\<rparr>;
          m3 = m2\<lparr>emitted := emitted m2 @ [RowsRemoved 0 oldRowCount]\<rparr>;
          m4 = m3\<lparr>emitted := emitted m3 @ [ColumnsRemoved 0 oldColCount]\<rparr>;
          m5 = m4\<lparr>emitted := emitted m4 @ [RowsInserted 0 (rowCount RBody m4)]\<rparr>;
          m6 = m5\<lparr>emitted := emitted m5 @ [ColumnsInserted 0 (columnCount CBody m5)]\<rparr>;
          m7 = m6\<lparr>emitted := emitted m6 @ [ModelReset]\<rparr>
      in m7\<lparr>emitted := emitted m7 @ [Refreshed (ixstr m7)]\<rparr>)"

text \<open>
  \<open>refresh\<close>, the part that runs at once, and the settling of the promise it returns:
  a rejection of the request passes to the caller, a response goes to \<open>_refresh\<close>.
\<close>

definition refresh :: "'v model \<Rightarrow> 'v model" where
  "refresh m =
     m\<lparr>contents_inflight := contents_inflight m @
         [\<lparr>c_fpath = fpath m, c_uri = uri m, c_ixstr = ixstr m\<rparr>]\<rparr>"

definition refresh_settled ::
  "error + hdf_contents \<Rightarrow> 'v model \<Rightarrow> (error + unit) \<times> 'v model" where
  "refresh_settled outcome m =
     (case outcome of
        Inl e \<Rightarrow> (Inl e, m)
      | Inr contents \<Rightarrow> (Inr (), refresh_impl (content contents) m))"

text \<open>The setter of \<open>ixstr\<close>; the getter is the field itself.\<close>

definition set_ixstr :: "string \<Rightarrow> 'v model \<Rightarrow> 'v model" where
  "set_ixstr s m = refresh (m\<lparr>ixstr := s\<rparr>)"

text \<open>
  \<open>init\<close>: \<open>_refresh\<close> runs at once, and the ready promise is resolved after it.
\<close>

definition init :: "string \<Rightarrow> string \<Rightarrow> dataset_meta \<Rightarrow> 'v model \<Rightarrow> 'v model" where
  "init fp u mt m =
     (refresh_impl (Some mt) (m\<lparr>fpath := fp, uri := u, ixstr := meta_ixstr mt\<rparr>))
       \<lparr>ready := True\<rparr>"

subsection \<open>The model over time\<close>

text \<open>
  What can happen to a model: a call of one of its methods, or the settling of a request
  in flight (named by its position among the requests in flight), with a rejection or
  with a response. The promise that \<open>_fetchBlock\<close> builds is returned to nobody, so
  whatever its handler returns or throws is dropped.
\<close>

datatype 'v event =
    InitE string string dataset_meta
  | DataE cell_region int int
  | SetIxstrE string
  | RefreshE
  | DataSettledE nat "error + 'v list list"
  | ContentsSettledE nat "error + hdf_contents"

definition take_out :: "nat \<Rightarrow> 'a list \<Rightarrow> 'a list" where
  "take_out k xs = take k xs @ drop (Suc k) xs"

definition fetch_settled ::
  "fetch \<Rightarrow> error + 'v list list \<Rightarrow> 'v model \<Rightarrow> (error + unit) \<times> 'v model" where
  "fetch_settled f outcome m =
     (case outcome of
        Inl e \<Rightarrow> (Inl e, m)
      | Inr d \<Rightarrow> fetchBlock_then f d m)"

fun apply_event :: "'v event \<Rightarrow> 'v model \<Rightarrow> 'v model" where
  "apply_event (InitE fp u mt) m = init fp u mt m"
| "apply_event (DataE region row col) m = snd (data region row col m)"
| "apply_event (SetIxstrE s) m = set_ixstr s m"
| "apply_event RefreshE m = refresh m"
| "apply_event (DataSettledE k outcome) m =
     (if k < length (data_inflight m)
      then snd (fetch_settled (data_inflight m ! k) outcome
                  (m\<lparr>data_inflight := take_out k (data_inflight m)\<rparr>))
      else m)"
| "apply_event (ContentsSettledE k outcome) m =
     (if k < length (contents_inflight m)
      then snd (refresh_settled outcome
                  (m\<lparr>contents_inflight := take_out k (contents_inflight m)\<rparr>))
      else m)"

fun run :: "'v event list \<Rightarrow> 'v model \<Rightarrow> 'v model" where
  "run [] m = m"
| "run (e # es) m = run es (apply_event e m)"

text \<open>The events that run \<open>_refresh\<close>, and so replace the block cache.\<close>

fun invalidating :: "'v event \<Rightarrow> bool" where
  "invalidating (InitE fp u mt) = True"
| "invalidating (ContentsSettledE k (Inr contents)) = True"
| "invalidating e = False"

text \<open>
  The state of a block as the specification names it: no entry (absent), \<open>Busy\<close>
  (pending) or \<open>Loaded\<close> (resolved). A missing row object leaves all its blocks absent.
\<close>

definition block_state :: "'v model \<Rightarrow> int \<Rightarrow> int \<Rightarrow> 'v block option" where
  "block_state m rowBlock colBlock =
     (case blocks m rowBlock of None \<Rightarrow> None | Some rowObj \<Rightarrow> rowObj colBlock)"

text \<open>How many data requests have been sent for a block.\<close>

definition fetches_for :: "int \<Rightarrow> int \<Rightarrow> 'v model \<Rightarrow> nat" where
  "fetches_for rowBlock colBlock m =
     length (filter (\<lambda>f. f_rowBlock f = rowBlock \<and> f_colBlock f = colBlock) (requested m))"

text \<open>
  An event that delivers the data of a fetch of the given block, and an event sequence
  that holds neither an invalidation nor such a delivery.
\<close>

fun resolves_block :: "int \<Rightarrow> int \<Rightarrow> 'v event \<Rightarrow> 'v model \<Rightarrow> bool" where
  "resolves_block rowBlock colBlock (DataSettledE k (Inr d)) m =
     (k < length (data_inflight m) \<and> f_rowBlock (data_inflight m ! k) = rowBlock \<and>
      f_colBlock (data_inflight m ! k) = colBlock)"
| "resolves_block rowBlock colBlock e m = False"

fun undisturbed :: "int \<Rightarrow> int \<Rightarrow> 'v event list \<Rightarrow> 'v model \<Rightarrow> bool" where
  "undisturbed rowBlock colBlock [] m = True"
| "undisturbed rowBlock colBlock (e # es) m =
     (\<not> invalidating e \<and> \<not> resolves_block rowBlock colBlock e m \<and>
      undisturbed rowBlock colBlock es (apply_event e m))"

text \<open>A model showing a 250 by 50 grid, for the examples.\<close>

definition meta_250_50 :: dataset_meta where
  "meta_250_50 = \<lparr>meta_ixstr = '':, :'', visshape = [250, 50],
     vislabels = [\<lparr>start = 0, stop = 250, step = 1\<rparr>, \<lparr>start = 0, stop = 50, step = 1\<rparr>]\<rparr>"

definition model_250_50 :: "int model" where
  "model_250_50 = init ''f.h5'' ''/d'' meta_250_50 new_model"

definition contents_250_50 :: hdf_contents where
  "contents_250_50 = \<lparr>content = Some meta_250_50\<rparr>"

definition grid_100_50 :: "int list list" where
  "grid_100_50 = replicate 100 (replicate 50 7)"

text \<open>A model showing rows 10, 12, ..., 108 of a dataset, for the header example.\<close>

definition meta_sliced :: dataset_meta where
  "meta_sliced = \<lparr>meta_ixstr = ''10:110:2, :'', visshape = [50, 50],
     vislabels = [\<lparr>start = 10, stop = 110, step = 2\<rparr>, \<lparr>start = 0, stop = 50, step = 1\<rparr>]\<rparr>"

definition model_sliced :: "int model" where
  "model_sliced = init ''f.h5'' ''/d'' meta_sliced new_model"

text \<open>
  A refresh that completes while the fetch of block (0, 0) is still in flight; and, from
  there, a second fetch of the block that fails while the first is still in flight.
\<close>

definition refreshed_while_fetching :: "int model" where
  "refreshed_while_fetching =
     run [DataE Body 0 0, RefreshE, ContentsSettledE 0 (Inr contents_250_50)] model_250_50"

text \<open>The same for block (1, 0): a refresh completes while its fetch is in flight.\<close>

definition refresh_overtakes_block_1_0 :: "int model" where
  "refresh_overtakes_block_1_0 =
     run [DataE Body 100 0, RefreshE, ContentsSettledE 0 (Inr contents_250_50)] model_250_50"

definition refetch_failed :: "int model" where
  "refetch_failed =
     run [DataE Body 0 0, DataSettledE 1 (Inl (RequestError ''timeout''))]
       refreshed_while_fetching"

section \<open>Properties\<close>

subsection \<open>Facts about the primitives\<close>


lemma block_index_nonneg:
  "0 \<le> a \<Longrightarrow> (a - js_rem a blockSize) div blockSize = a div blockSize"
  by (simp add: js_rem_def blockSize_def minus_mod_eq_mult_div)

text \<open>The division that gives the block index is exact.\<close>

lemma block_index_exact: "blockSize dvd (a - js_rem a blockSize)"
proof (cases "a < 0")
  case True
  have "a - js_rem a blockSize = - ((- a) - (- a) mod 100)"
    using True by (simp add: js_rem_def blockSize_def)
  also have "\<dots> = - (100 * ((- a) div 100))"
    by (simp only: minus_mod_eq_mult_div)
  finally show ?thesis by (simp add: blockSize_def)
next
  case False
  then have "a - js_rem a blockSize = 100 * (a div 100)"
    by (simp add: js_rem_def blockSize_def minus_mod_eq_mult_div)
  then show ?thesis by (simp add: blockSize_def)
qed

lemma digit_val_digit_char: "d < 10 \<Longrightarrow> digit_val (digit_char d) = Some d"
proof -
  assume "d < 10"
  then have "d \<in> {0, 1, 2, 3, 4, 5, 6, 7, 8, 9}" by auto
  then show ?thesis
    by (auto simp add: digit_val_def digit_char_def)
qed

lemma digits_value_snoc:
  "digits_value acc (xs @ [c]) =
     (case digits_value acc xs of
        None \<Rightarrow> None
      | Some v \<Rightarrow> (case digit_val c of None \<Rightarrow> None | Some d \<Rightarrow> Some (v * 10 + d)))"
  by (induction xs arbitrary: acc) (auto split: option.splits)

lemma digits_value_nat_digits: "digits_value 0 (nat_digits n) = Some n"
proof (induction n rule: nat_digits.induct)
  case (1 n)
  show ?case
  proof (cases "n < 10")
    case True
    then show ?thesis
      by (simp add: nat_digits.simps [of n] digit_val_digit_char)
  next
    case False
    with 1 have "digits_value 0 (nat_digits (n div 10)) = Some (n div 10)"
      by simp
    with False show ?thesis
      by (simp add: nat_digits.simps [of n] digits_value_snoc digit_val_digit_char)
  qed
qed

lemma nat_digits_not_Nil: "nat_digits n \<noteq> []"
  by (subst nat_digits.simps) simp

lemma nat_digits_chars: "c \<in> set (nat_digits n) \<Longrightarrow> digit_val c \<noteq> None"
proof (induction n rule: nat_digits.induct)
  case (1 n)
  show ?case
  proof (cases "n < 10")
    case True
    with 1(2) show ?thesis
      by (simp add: nat_digits.simps [of n] digit_val_digit_char)
  next
    case False
    with 1 show ?thesis
      by (auto simp add: nat_digits.simps [of n] digit_val_digit_char)
  qed
qed

lemma string_to_nat_nat_digits: "string_to_nat (nat_digits n) = Some n"
  by (simp add: string_to_nat_def nat_digits_not_Nil digits_value_nat_digits)

lemma hd_nat_digits: "nat_digits n = c # t \<Longrightarrow> c \<noteq> CHR ''-''"
proof
  assume eq: "nat_digits n = c # t" and c: "c = CHR ''-''"
  from eq have "c \<in> set (nat_digits n)" by simp
  then have "digit_val c \<noteq> None" by (rule nat_digits_chars)
  with c show False by (simp add: digit_val_def)
qed

lemma string_to_num_num_to_string: "string_to_num (num_to_string n) = Some n"
proof (cases "n < 0")
  case True
  then show ?thesis
    by (simp add: string_to_num_def num_to_string_def string_to_nat_nat_digits)
next
  case False
  obtain c t where ct: "nat_digits (nat n) = c # t"
    using nat_digits_not_Nil [of "nat n"] by (cases "nat_digits (nat n)") auto
  from ct have "c \<noteq> CHR ''-''" by (rule hd_nat_digits)
  with False ct string_to_nat_nat_digits [of "nat n"] show ?thesis
    by (simp add: string_to_num_def num_to_string_def)
qed

lemma take_out_last: "take_out (length xs) (xs @ [x]) = xs"
  by (simp add: take_out_def)

lemma counts_refresh_impl:
  "rowCount r (refresh_impl mt m) = rowCount r (m\<lparr>meta := mt\<rparr>)"
  "columnCount c (refresh_impl mt m) = columnCount c (m\<lparr>meta := mt\<rparr>)"
  by (simp_all add: refresh_impl_def rowCount_def columnCount_def Let_def)

lemma refresh_impl_eq:
  "refresh_impl mt m =
     m\<lparr>meta := mt, blocks := Map.empty,
       emitted := emitted m @
         [RowsRemoved 0 (rowCount RBody m), ColumnsRemoved 0 (columnCount CBody m),
          RowsInserted 0 (rowCount RBody (m\<lparr>meta := mt\<rparr>)),
          ColumnsInserted 0 (columnCount CBody (m\<lparr>meta := mt\<rparr>)),
          ModelReset, Refreshed (ixstr m)]\<rparr>"
  by (simp add: refresh_impl_def rowCount_def columnCount_def Let_def)

subsection \<open>Facts about fetching and querying\<close>

lemma fetchBlock_present:
  "blocks m rb = Some ro \<Longrightarrow>
   fetchBlock rb cb m =
     (Inr (),
      m\<lparr>blocks := (blocks m)(rb \<mapsto> ro(cb \<mapsto> Busy)),
        requested := requested m @
          [\<lparr>params = \<lparr>d_fpath = fpath m, d_uri = uri m, d_ixstr = ixstr m,
              subixstr = subix_string (rb * blockSize)
                (min (rb * blockSize + blockSize) (rowCount RBody m)) (cb * blockSize)
                (min (cb * blockSize + blockSize) (columnCount CBody m))\<rparr>,
            f_rowBlock = rb, f_colBlock = cb, f_row = rb * blockSize,
            f_column = cb * blockSize,
            f_rowStop = min (rb * blockSize + blockSize) (rowCount RBody m),
            f_colStop = min (cb * blockSize + blockSize) (columnCount CBody m)\<rparr>],
        data_inflight := data_inflight m @
          [\<lparr>params = \<lparr>d_fpath = fpath m, d_uri = uri m, d_ixstr = ixstr m,
              subixstr = subix_string (rb * blockSize)
                (min (rb * blockSize + blockSize) (rowCount RBody m)) (cb * blockSize)
                (min (cb * blockSize + blockSize) (columnCount CBody m))\<rparr>,
            f_rowBlock = rb, f_colBlock = cb, f_row = rb * blockSize,
            f_column = cb * blockSize,
            f_rowStop = min (rb * blockSize + blockSize) (rowCount RBody m),
            f_colStop = min (cb * blockSize + blockSize) (columnCount CBody m)\<rparr>]\<rparr>)"
  by (simp add: fetchBlock_def Let_def rowCount_def columnCount_def)

lemma fetchBlock_absent: "blocks m rb = None \<Longrightarrow> fetchBlock rb cb m = (Inl TypeError, m)"
  by (simp add: fetchBlock_def)

lemma fetchBlock_ok_iff: "fst (fetchBlock rb cb m) = Inr () \<longleftrightarrow> blocks m rb \<noteq> None"
  by (cases "blocks m rb") (simp_all add: fetchBlock_absent fetchBlock_present)

lemma fetchBlock_then_ok_iff:
  "fst (fetchBlock_then f d m) = Inr () \<longleftrightarrow> blocks m (f_rowBlock f) \<noteq> None"
  by (simp add: fetchBlock_then_def split: option.split)

lemma block_state_new_row:
  "blocks m rb0 = None \<Longrightarrow>
   block_state (m\<lparr>blocks := (blocks m)(rb0 \<mapsto> Map.empty)\<rparr>) rb cb = block_state m rb cb"
  by (simp add: block_state_def)

lemma block_state_set:
  "blocks m rb0 = Some ro \<Longrightarrow>
   block_state (m\<lparr>blocks := (blocks m)(rb0 \<mapsto> ro(cb0 \<mapsto> b))\<rparr>) rb cb =
     (if rb = rb0 \<and> cb = cb0 then Some b else block_state m rb cb)"
  by (simp add: block_state_def)

text \<open>What a call of \<open>_fetchBlock\<close> that finds the row object does.\<close>

lemma fetchBlock_effect:
  assumes "blocks m rb0 = Some ro"
  shows "\<exists>f. f_rowBlock f = rb0 \<and> f_colBlock f = cb0 \<and>
           requested (snd (fetchBlock rb0 cb0 m)) = requested m @ [f] \<and>
           data_inflight (snd (fetchBlock rb0 cb0 m)) = data_inflight m @ [f]"
    and "block_state (snd (fetchBlock rb0 cb0 m)) rb cb =
           (if rb = rb0 \<and> cb = cb0 then Some Busy else block_state m rb cb)"
    and "emitted (snd (fetchBlock rb0 cb0 m)) = emitted m"
    and "fst (fetchBlock rb0 cb0 m) = Inr ()"
  using assms by (simp_all add: fetchBlock_present block_state_def)

text \<open>
  A body query by the state of the block it falls into; the block is computed the way
  the method does it, for any row and column.
\<close>

lemma data_Body_pending:
  "block_state m ((row - js_rem row blockSize) div blockSize)
     ((col - js_rem col blockSize) div blockSize) = Some Busy \<Longrightarrow>
   data Body row col m = (Inr Null, m)"
  by (auto simp add: data_def Let_def block_state_def split: option.splits)

lemma data_Body_resolved:
  "block_state m ((row - js_rem row blockSize) div blockSize)
     ((col - js_rem col blockSize) div blockSize) = Some (Loaded d) \<Longrightarrow>
   data Body row col m =
     (cell_at d (js_rem row blockSize) (js_rem col blockSize), m)"
  by (auto simp add: data_def Let_def block_state_def split: option.splits)

lemma data_Body_absent:
  assumes "block_state m ((row - js_rem row blockSize) div blockSize)
     ((col - js_rem col blockSize) div blockSize) = None"
  shows "data Body row col m =
     (Inr Null,
      snd (fetchBlock ((row - js_rem row blockSize) div blockSize)
             ((col - js_rem col blockSize) div blockSize)
             (m\<lparr>blocks := (blocks m)((row - js_rem row blockSize) div blockSize \<mapsto>
                  (case blocks m ((row - js_rem row blockSize) div blockSize) of
                     None \<Rightarrow> Map.empty | Some ro \<Rightarrow> ro))\<rparr>)))"
proof (cases "blocks m ((row - js_rem row blockSize) div blockSize)")
  case None
  then show ?thesis
    by (simp add: data_def Let_def fetchBlock_present)
next
  case (Some ro)
  then have same: "(blocks m)((row - js_rem row blockSize) div blockSize \<mapsto> ro) = blocks m"
    by (simp add: map_upd_triv)
  from Some assms have "ro ((col - js_rem col blockSize) div blockSize) = None"
    by (simp add: block_state_def)
  with Some same show ?thesis
    by (simp add: data_def Let_def fetchBlock_present)
qed

lemmas eval_defs =
  model_250_50_def meta_250_50_def new_model_def init_def refresh_impl_eq rowCount_def
  columnCount_def or_zero_def js_nth_def data_def Let_def js_rem_def blockSize_def
  fetchBlock_def fetchBlock_then_def fetch_settled_def take_out_def refresh_def
  refresh_settled_def set_ixstr_def block_state_def cell_at_def


lemma data_Body_absent_effect:
  assumes "block_state m ((row - js_rem row blockSize) div blockSize)
     ((col - js_rem col blockSize) div blockSize) = None"
  shows "\<exists>f. f_rowBlock f = (row - js_rem row blockSize) div blockSize \<and>
           f_colBlock f = (col - js_rem col blockSize) div blockSize \<and>
           requested (snd (data Body row col m)) = requested m @ [f] \<and>
           data_inflight (snd (data Body row col m)) = data_inflight m @ [f]"
    and "block_state (snd (data Body row col m)) rb cb =
           (if rb = (row - js_rem row blockSize) div blockSize \<and>
               cb = (col - js_rem col blockSize) div blockSize
            then Some Busy else block_state m rb cb)"
    and "emitted (snd (data Body row col m)) = emitted m"
    and "fst (data Body row col m) = Inr Null"
proof -
  let ?rb = "(row - js_rem row blockSize) div blockSize"
  let ?ro = "case blocks m ?rb of None \<Rightarrow> Map.empty | Some ro \<Rightarrow> ro"
  let ?m0 = "m\<lparr>blocks := (blocks m)(?rb \<mapsto> ?ro)\<rparr>"
  have row: "blocks ?m0 ?rb = Some ?ro" by simp
  have same: "block_state ?m0 rb cb = block_state m rb cb" for rb cb
    by (cases "blocks m ?rb") (simp_all add: block_state_def)
  note eff = fetchBlock_effect [OF row]
  note d = data_Body_absent [OF assms]
  from eff(1) [of "(col - js_rem col blockSize) div blockSize"]
  show "\<exists>f. f_rowBlock f = ?rb \<and>
           f_colBlock f = (col - js_rem col blockSize) div blockSize \<and>
           requested (snd (data Body row col m)) = requested m @ [f] \<and>
           data_inflight (snd (data Body row col m)) = data_inflight m @ [f]"
    by (simp add: d)
  show "block_state (snd (data Body row col m)) rb cb =
           (if rb = ?rb \<and> cb = (col - js_rem col blockSize) div blockSize
            then Some Busy else block_state m rb cb)"
    by (simp add: d eff(2) same)
  show "emitted (snd (data Body row col m)) = emitted m"
    by (simp add: d eff(3))
  show "fst (data Body row col m) = Inr Null"
    by (simp add: d)
qed

lemma data_header: "region \<noteq> Body \<Longrightarrow> snd (data region row col m) = m"
  by (cases region) (simp_all add: data_def)

lemma fetchBlock_then_effect:
  "block_state (snd (fetchBlock_then f d m)) rb cb =
     (if blocks m (f_rowBlock f) \<noteq> None \<and> rb = f_rowBlock f \<and> cb = f_colBlock f
      then Some (Loaded d) else block_state m rb cb)"
  "requested (snd (fetchBlock_then f d m)) = requested m"
  "data_inflight (snd (fetchBlock_then f d m)) = data_inflight m"
  by (auto simp add: fetchBlock_then_def block_state_def split: option.splits)





lemma data_keeps_pending:
  assumes "block_state m rb cb = Some Busy"
  shows "block_state (snd (data region row col m)) rb cb = Some Busy"
proof (cases "region = Body")
  case False
  with assms show ?thesis by (simp add: data_header)
next
  case True
  let ?rb = "(row - js_rem row blockSize) div blockSize"
  let ?cb = "(col - js_rem col blockSize) div blockSize"
  show ?thesis
  proof (cases "block_state m ?rb ?cb")
    case None
    with assms have "\<not> (rb = ?rb \<and> cb = ?cb)" by auto
    with assms True show ?thesis
      by (simp add: data_Body_absent_effect(2) [OF None])
  next
    case (Some b)
    with assms True show ?thesis
      by (cases b) (simp_all add: data_Body_pending data_Body_resolved)
  qed
qed

lemma apply_event_keeps_pending:
  assumes busy: "block_state m rb cb = Some Busy"
    and inv: "\<not> invalidating e"
    and res: "\<not> resolves_block rb cb e m"
  shows "block_state (apply_event e m) rb cb = Some Busy"
proof (cases e)
  case (InitE fp u mt)
  with inv show ?thesis by simp
next
  case (DataE region row col)
  with busy show ?thesis by (simp add: data_keeps_pending)
next
  case (SetIxstrE s)
  with busy show ?thesis
    by (simp add: set_ixstr_def refresh_def block_state_def)
next
  case RefreshE
  with busy show ?thesis
    by (simp add: refresh_def block_state_def)
next
  case (DataSettledE k outcome)
  show ?thesis
  proof (cases "k < length (data_inflight m)")
    case False
    with DataSettledE busy show ?thesis by simp
  next
    case True
    let ?m0 = "m\<lparr>data_inflight := take_out k (data_inflight m)\<rparr>"
    have m0: "block_state ?m0 rb cb = block_state m rb cb"
      by (simp add: block_state_def)
    show ?thesis
    proof (cases outcome)
      case (Inl err)
      with DataSettledE True busy m0 show ?thesis
        by (simp add: fetch_settled_def)
    next
      case (Inr d)
      with res DataSettledE True
      have "\<not> (rb = f_rowBlock (data_inflight m ! k) \<and> cb = f_colBlock (data_inflight m ! k))"
        by auto
      with DataSettledE True Inr busy m0 show ?thesis
        by (simp add: fetch_settled_def fetchBlock_then_effect(1))
    qed
  qed
next
  case (ContentsSettledE k outcome)
  with inv obtain err where "outcome = Inl err"
    by (cases outcome) auto
  with ContentsSettledE busy show ?thesis
    by (simp add: refresh_settled_def block_state_def)
qed

lemma run_keeps_pending:
  "block_state m rb cb = Some Busy \<Longrightarrow> undisturbed rb cb es m \<Longrightarrow>
   block_state (run es m) rb cb = Some Busy"
proof (induction es arbitrary: m)
  case Nil
  then show ?case by simp
next
  case (Cons e es)
  from Cons.prems(2) have e: "\<not> invalidating e" "\<not> resolves_block rb cb e m"
    and es: "undisturbed rb cb es (apply_event e m)"
    by simp_all
  from apply_event_keeps_pending [OF Cons.prems(1) e]
  have "block_state (apply_event e m) rb cb = Some Busy" .
  from Cons.IH [OF this es] show ?case by simp
qed

lemma failed_fetch_step:
  "k < length (data_inflight m) \<Longrightarrow>
   apply_event (DataSettledE k (Inl err)) m = m\<lparr>data_inflight := take_out k (data_inflight m)\<rparr>"
  by (simp add: fetch_settled_def)








lemmas eval2 = eval_defs contents_250_50_def fetches_for_def



text \<open>A row object stays until the next invalidation.\<close>

lemma data_keeps_row:
  "blocks m rb \<noteq> None \<Longrightarrow> blocks (snd (data region row col m)) rb \<noteq> None"
  by (auto simp add: data_def Let_def fetchBlock_def split: option.splits block.splits)

lemma fetch_settled_keeps_row:
  "blocks m rb \<noteq> None \<Longrightarrow> blocks (snd (fetch_settled f outcome m)) rb \<noteq> None"
  by (auto simp add: fetch_settled_def fetchBlock_then_def split: sum.splits option.splits)

lemma apply_event_keeps_row:
  assumes "blocks m rb \<noteq> None" and "\<not> invalidating e"
  shows "blocks (apply_event e m) rb \<noteq> None"
proof (cases e)
  case (InitE fp u mt)
  with assms show ?thesis by simp
next
  case (DataE region row col)
  with assms show ?thesis by (simp add: data_keeps_row)
next
  case (SetIxstrE s)
  with assms show ?thesis by (simp add: set_ixstr_def refresh_def)
next
  case RefreshE
  with assms show ?thesis by (simp add: refresh_def)
next
  case (DataSettledE k outcome)
  from assms(1)
  have "blocks (m\<lparr>data_inflight := take_out k (data_inflight m)\<rparr>) rb \<noteq> None"
    by simp
  then have "blocks (snd (fetch_settled (data_inflight m ! k) outcome
      (m\<lparr>data_inflight := take_out k (data_inflight m)\<rparr>))) rb \<noteq> None"
    by (rule fetch_settled_keeps_row)
  with DataSettledE assms show ?thesis by simp
next
  case (ContentsSettledE k outcome)
  with assms obtain err where "outcome = Inl err"
    by (cases outcome) auto
  with ContentsSettledE assms show ?thesis
    by (simp add: refresh_settled_def)
qed

lemma run_keeps_row:
  "blocks m rb \<noteq> None \<Longrightarrow> list_all (\<lambda>e. \<not> invalidating e) es \<Longrightarrow>
   blocks (run es m) rb \<noteq> None"
proof (induction es arbitrary: m)
  case Nil
  then show ?case by simp
next
  case (Cons e es)
  from Cons.prems have "blocks (apply_event e m) rb \<noteq> None"
    by (simp add: apply_event_keeps_row)
  with Cons show ?case by simp
qed

lemma fetchBlock_then_absent:
  "blocks m (f_rowBlock f) = None \<Longrightarrow> fetchBlock_then f d m = (Inl TypeError, m)"
  by (simp add: fetchBlock_then_def)

subsection \<open>Row and column counts\<close>

text \<open>
  C8: \<open>rowCount("body")\<close> is \<open>visshape[0]\<close> and \<open>columnCount("body")\<close> is
  \<open>visshape[1]\<close>, both 0 when there is no metadata; for the header region each of the
  two returns 1, with or without metadata.
\<close>

theorem counts_by_region:
  "(meta m = None \<longrightarrow> rowCount RBody m = 0 \<and> columnCount CBody m = 0) \<and>
   (\<forall>mt. meta m = Some mt \<and> 0 < length (visshape mt) \<longrightarrow>
      rowCount RBody m = visshape mt ! 0) \<and>
   (\<forall>mt. meta m = Some mt \<and> 1 < length (visshape mt) \<longrightarrow>
      columnCount CBody m = visshape mt ! 1) \<and>
   rowCount RColumnHeader m = 1 \<and> columnCount CRowHeader m = 1"
  by (simp add: rowCount_def columnCount_def or_zero_def js_nth_def)

theorem counts_by_region_witness:
  "meta (new_model :: int model) = None \<and>
   rowCount RBody (new_model :: int model) = 0 \<and>
   columnCount CBody (new_model :: int model) = 0 \<and>
   meta model_250_50 = Some meta_250_50 \<and> 1 < length (visshape meta_250_50) \<and>
   rowCount RBody model_250_50 = 250 \<and> columnCount CBody model_250_50 = 50 \<and>
   rowCount RColumnHeader model_250_50 = 1 \<and> columnCount CRowHeader model_250_50 = 1"
proof -
  have none: "meta (new_model :: int model) = None"
    by (simp add: new_model_def)
  have some: "meta model_250_50 = Some meta_250_50"
    by (simp add: model_250_50_def init_def refresh_impl_eq)
  have len: "1 < length (visshape meta_250_50)" "0 < length (visshape meta_250_50)"
    by (simp_all add: meta_250_50_def)
  have nth: "visshape meta_250_50 ! 0 = 250" "visshape meta_250_50 ! 1 = 50"
    by (simp_all add: meta_250_50_def)
  from counts_by_region [of "new_model :: int model"] none
  have a: "rowCount RBody (new_model :: int model) = 0 \<and>
           columnCount CBody (new_model :: int model) = 0"
    by blast
  from counts_by_region [of model_250_50] some len nth
  have b: "rowCount RBody model_250_50 = 250 \<and> columnCount CBody model_250_50 = 50 \<and>
           rowCount RColumnHeader model_250_50 = 1 \<and>
           columnCount CRowHeader model_250_50 = 1"
    by simp
  from none some len a b show ?thesis by simp
qed

subsection \<open>Refreshing\<close>

text \<open>
  C2: when the contents request of a refresh is answered, the model emits rows-removed
  and columns-removed with the old counts, rows-inserted and columns-inserted with the
  new counts, model-reset, and then the refreshed signal with the current slice string,
  in this order and nothing else; the block cache is empty afterwards, so every block is
  absent. The same holds for the whole cycle of calling \<open>refresh\<close> and receiving the
  response. The old counts are the visible shape \<open>(r1, c1)\<close> of the metadata before
  (0 and 0 without metadata), the new counts the visible shape \<open>(r2, c2)\<close> of the
  metadata received (0 and 0 when the response has no content).
\<close>

theorem refresh_event_sequence:
  "fst (refresh_settled (Inr contents) m) = Inr () \<and>
   emitted (snd (refresh_settled (Inr contents) m)) =
     emitted m @
       [RowsRemoved 0 (rowCount RBody m),
        ColumnsRemoved 0 (columnCount CBody m),
        RowsInserted 0 (rowCount RBody (snd (refresh_settled (Inr contents) m))),
        ColumnsInserted 0 (columnCount CBody (snd (refresh_settled (Inr contents) m))),
        ModelReset,
        Refreshed (ixstr (snd (refresh_settled (Inr contents) m)))] \<and>
   blocks (snd (refresh_settled (Inr contents) m)) = Map.empty \<and>
   block_state (snd (refresh_settled (Inr contents) m)) rowBlock colBlock = None \<and>
   meta (snd (refresh_settled (Inr contents) m)) = content contents \<and>
   run [RefreshE, ContentsSettledE (length (contents_inflight m)) (Inr contents)] m =
     snd (refresh_settled (Inr contents) m) \<and>
   (\<forall>old new r1 c1 r2 c2.
      meta m = Some old \<and> visshape old = [r1, c1] \<and>
      content contents = Some new \<and> visshape new = [r2, c2] \<longrightarrow>
      emitted (snd (refresh_settled (Inr contents) m)) =
        emitted m @
          [RowsRemoved 0 r1, ColumnsRemoved 0 c1, RowsInserted 0 r2, ColumnsInserted 0 c2,
           ModelReset, Refreshed (ixstr m)]) \<and>
   (\<forall>new r2 c2.
      meta m = None \<and> content contents = Some new \<and> visshape new = [r2, c2] \<longrightarrow>
      emitted (snd (refresh_settled (Inr contents) m)) =
        emitted m @
          [RowsRemoved 0 0, ColumnsRemoved 0 0, RowsInserted 0 r2, ColumnsInserted 0 c2,
           ModelReset, Refreshed (ixstr m)]) \<and>
   (\<forall>old r1 c1.
      meta m = Some old \<and> visshape old = [r1, c1] \<and> content contents = None \<longrightarrow>
      emitted (snd (refresh_settled (Inr contents) m)) =
        emitted m @
          [RowsRemoved 0 r1, ColumnsRemoved 0 c1, RowsInserted 0 0, ColumnsInserted 0 0,
           ModelReset, Refreshed (ixstr m)])"
proof -
  have basic: "fst (refresh_settled (Inr contents) m) = Inr () \<and>
   emitted (snd (refresh_settled (Inr contents) m)) =
     emitted m @
       [RowsRemoved 0 (rowCount RBody m),
        ColumnsRemoved 0 (columnCount CBody m),
        RowsInserted 0 (rowCount RBody (snd (refresh_settled (Inr contents) m))),
        ColumnsInserted 0 (columnCount CBody (snd (refresh_settled (Inr contents) m))),
        ModelReset,
        Refreshed (ixstr (snd (refresh_settled (Inr contents) m)))] \<and>
   blocks (snd (refresh_settled (Inr contents) m)) = Map.empty \<and>
   block_state (snd (refresh_settled (Inr contents) m)) rowBlock colBlock = None \<and>
   meta (snd (refresh_settled (Inr contents) m)) = content contents \<and>
   run [RefreshE, ContentsSettledE (length (contents_inflight m)) (Inr contents)] m =
     snd (refresh_settled (Inr contents) m)"
    by (simp add: refresh_settled_def refresh_def take_out_last counts_refresh_impl
        block_state_def)
      (simp add: refresh_impl_eq)
  have shapes: "emitted (snd (refresh_settled (Inr contents) m)) =
        emitted m @
          [RowsRemoved 0 r1, ColumnsRemoved 0 c1, RowsInserted 0 r2, ColumnsInserted 0 c2,
           ModelReset, Refreshed (ixstr m)]"
    if "meta m = Some old \<and> visshape old = [r1, c1] \<and>
        content contents = Some new \<and> visshape new = [r2, c2]" for old new r1 c1 r2 c2
    using that
    by (simp add: refresh_settled_def refresh_impl_eq rowCount_def columnCount_def
        or_zero_def js_nth_def)
  have first: "emitted (snd (refresh_settled (Inr contents) m)) =
        emitted m @
          [RowsRemoved 0 0, ColumnsRemoved 0 0, RowsInserted 0 r2, ColumnsInserted 0 c2,
           ModelReset, Refreshed (ixstr m)]"
    if "meta m = None \<and> content contents = Some new \<and> visshape new = [r2, c2]"
    for new r2 c2
    using that
    by (simp add: refresh_settled_def refresh_impl_eq rowCount_def columnCount_def
        or_zero_def js_nth_def)
  have gone: "emitted (snd (refresh_settled (Inr contents) m)) =
        emitted m @
          [RowsRemoved 0 r1, ColumnsRemoved 0 c1, RowsInserted 0 0, ColumnsInserted 0 0,
           ModelReset, Refreshed (ixstr m)]"
    if "meta m = Some old \<and> visshape old = [r1, c1] \<and> content contents = None"
    for old r1 c1
    using that
    by (simp add: refresh_settled_def refresh_impl_eq rowCount_def columnCount_def
        or_zero_def js_nth_def)
  from basic shapes first gone show ?thesis by blast
qed

theorem refresh_event_sequence_witness:
  "meta model_250_50 = Some meta_250_50 \<and> visshape meta_250_50 = [250, 50] \<and>
   content \<lparr>content = Some meta_sliced\<rparr> = Some meta_sliced \<and>
   visshape meta_sliced = [50, 50] \<and>
   emitted (snd (refresh_settled (Inr \<lparr>content = Some meta_sliced\<rparr>) model_250_50)) =
     emitted model_250_50 @
       [RowsRemoved 0 250, ColumnsRemoved 0 50, RowsInserted 0 50, ColumnsInserted 0 50,
        ModelReset, Refreshed '':, :''] \<and>
   meta (new_model :: int model) = None \<and>
   emitted (snd (refresh_settled (Inr contents_250_50) (new_model :: int model))) =
     [RowsRemoved 0 0, ColumnsRemoved 0 0, RowsInserted 0 250, ColumnsInserted 0 50,
      ModelReset, Refreshed []]"
proof -
  have old: "meta model_250_50 = Some meta_250_50" "visshape meta_250_50 = [250, 50]"
    "ixstr model_250_50 = '':, :''"
    by (simp_all add: model_250_50_def init_def refresh_impl_eq meta_250_50_def)
  have new: "content \<lparr>content = Some meta_sliced\<rparr> = Some meta_sliced"
    "visshape meta_sliced = [50, 50]"
    by (simp_all add: meta_sliced_def)
  have fresh: "meta (new_model :: int model) = None" "ixstr (new_model :: int model) = []"
    "emitted (new_model :: int model) = []"
    "content contents_250_50 = Some meta_250_50"
    by (simp_all add: new_model_def contents_250_50_def)
  from refresh_event_sequence [of "\<lparr>content = Some meta_sliced\<rparr>" model_250_50]
    old(1) old(2) new
  have "emitted (snd (refresh_settled (Inr \<lparr>content = Some meta_sliced\<rparr>) model_250_50)) =
     emitted model_250_50 @
       [RowsRemoved 0 250, ColumnsRemoved 0 50, RowsInserted 0 50, ColumnsInserted 0 50,
        ModelReset, Refreshed (ixstr model_250_50)]"
    by blast
  then have a: "emitted (snd (refresh_settled (Inr \<lparr>content = Some meta_sliced\<rparr>)
      model_250_50)) =
     emitted model_250_50 @
       [RowsRemoved 0 250, ColumnsRemoved 0 50, RowsInserted 0 50, ColumnsInserted 0 50,
        ModelReset, Refreshed '':, :'']"
    by (simp only: old(3))
  from refresh_event_sequence [of contents_250_50 "new_model :: int model"]
    fresh(1) fresh(4) old(2)
  have "emitted (snd (refresh_settled (Inr contents_250_50) (new_model :: int model))) =
     emitted (new_model :: int model) @
       [RowsRemoved 0 0, ColumnsRemoved 0 0, RowsInserted 0 250, ColumnsInserted 0 50,
        ModelReset, Refreshed (ixstr (new_model :: int model))]"
    by blast
  then have b: "emitted (snd (refresh_settled (Inr contents_250_50) (new_model :: int model))) =
     [RowsRemoved 0 0, ColumnsRemoved 0 0, RowsInserted 0 250, ColumnsInserted 0 50,
      ModelReset, Refreshed []]"
    by (simp only: fresh(2) fresh(3) append_Nil)
  from old(1) old(2) new fresh(1) a b show ?thesis by blast
qed

subsection \<open>A failed refresh\<close>

text \<open>
  C5: when the contents request of a refresh is rejected, the promise \<open>refresh\<close> returned
  is rejected with the same error and the model is as it was before \<open>refresh\<close> was
  called: every field is unchanged, nothing has been emitted.
\<close>

theorem failed_refresh_changes_nothing:
  "refresh_settled (Inl e) m = (Inl e, m) \<and>
   run [RefreshE, ContentsSettledE (length (contents_inflight m)) (Inl e)] m = m \<and>
   emitted (refresh m) = emitted m \<and> meta (refresh m) = meta m \<and>
   blocks (refresh m) = blocks m"
  by (simp add: refresh_settled_def refresh_def take_out_last)

subsection \<open>The slice string\<close>

text \<open>
  C10: the setter stores the new slice string at once, while the refresh it starts is
  still in flight and has changed neither the metadata nor the block cache; \<open>refresh\<close>,
  the settling of its request and \<open>_refresh\<close> leave the slice string, the file path and
  the uri alone, and \<open>_refresh\<close> changes no field but the metadata and the block cache
  (and emits its signals).
\<close>

theorem ixstr_frame:
  "ixstr (set_ixstr s m) = s \<and>
   contents_inflight (set_ixstr s m) =
     contents_inflight m @ [\<lparr>c_fpath = fpath m, c_uri = uri m, c_ixstr = s\<rparr>] \<and>
   meta (set_ixstr s m) = meta m \<and> blocks (set_ixstr s m) = blocks m \<and>
   emitted (set_ixstr s m) = emitted m \<and>
   ixstr (refresh m) = ixstr m \<and> fpath (refresh m) = fpath m \<and> uri (refresh m) = uri m \<and>
   refresh m = m\<lparr>contents_inflight := contents_inflight (refresh m)\<rparr> \<and>
   ixstr (snd (refresh_settled outcome m)) = ixstr m \<and>
   fpath (snd (refresh_settled outcome m)) = fpath m \<and>
   uri (snd (refresh_settled outcome m)) = uri m \<and>
   ixstr (refresh_impl mt m) = ixstr m \<and> fpath (refresh_impl mt m) = fpath m \<and>
   uri (refresh_impl mt m) = uri m \<and>
   refresh_impl mt m =
     m\<lparr>meta := mt, blocks := Map.empty, emitted := emitted (refresh_impl mt m)\<rparr>"
  by (simp add: set_ixstr_def refresh_def refresh_settled_def refresh_impl_eq
      split: sum.split)

subsection \<open>Body queries\<close>



subsection \<open>Header labels\<close>

text \<open>
  C7: for every row index \<open>r\<close>, \<open>data("row-header", r, c)\<close> is the decimal string of
  \<open>rowSlice.start + r * rowSlice.step\<close> (a string that reads back as that number), and
  \<open>data("column-header", r, c)\<close> is the string of \<open>colSlice.start + c * colSlice.step\<close>;
  \<open>data("corner-header", r, c)\<close> is null. With metadata, the two slices are
  \<open>vislabels[0]\<close> and \<open>vislabels[1]\<close>. With the row slice 10:110:2, row 5 gives "20".
  The two header statements are for safe integers: the index, the start and the step of
  the slice, the product and the sum are all held exactly by a JavaScript number.
\<close>

theorem header_labels:
  "(safe_integer r \<and> safe_integer (start (rowSlice m)) \<and> safe_integer (step (rowSlice m)) \<and>
    safe_integer (r * step (rowSlice m)) \<and>
    safe_integer (start (rowSlice m) + r * step (rowSlice m)) \<longrightarrow>
      data RowHeader r c m =
        (Inr (Str (num_to_string (start (rowSlice m) + r * step (rowSlice m)))), m) \<and>
      string_to_num (num_to_string (start (rowSlice m) + r * step (rowSlice m))) =
        Some (start (rowSlice m) + r * step (rowSlice m))) \<and>
   (safe_integer c \<and> safe_integer (start (colSlice m)) \<and> safe_integer (step (colSlice m)) \<and>
    safe_integer (c * step (colSlice m)) \<and>
    safe_integer (start (colSlice m) + c * step (colSlice m)) \<longrightarrow>
      data ColumnHeader r c m =
        (Inr (Str (num_to_string (start (colSlice m) + c * step (colSlice m)))), m) \<and>
      string_to_num (num_to_string (start (colSlice m) + c * step (colSlice m))) =
        Some (start (colSlice m) + c * step (colSlice m))) \<and>
   data CornerHeader r c m = (Inr Null, m) \<and>
   (\<forall>mt. meta m = Some mt \<and> 0 < length (vislabels mt) \<longrightarrow>
      rowSlice m = vislabels mt ! 0) \<and>
   (\<forall>mt. meta m = Some mt \<and> 1 < length (vislabels mt) \<longrightarrow>
      colSlice m = vislabels mt ! 1) \<and>
   (rowSlice m = \<lparr>start = 10, stop = 110, step = 2\<rparr> \<longrightarrow>
      data RowHeader 5 c m = (Inr (Str ''20''), m))"
proof -
  have twenty: "num_to_string 20 = ''20''"
    by (simp add: num_to_string_def nat_digits.simps digit_char_def)
  show ?thesis
    by (simp add: data_def string_to_num_num_to_string rowSlice_def colSlice_def
        js_nth_def twenty)
qed

theorem header_labels_witness:
  "meta model_sliced = Some meta_sliced \<and> 1 < length (vislabels meta_sliced) \<and>
   rowSlice model_sliced = \<lparr>start = 10, stop = 110, step = 2\<rparr> \<and>
   colSlice model_sliced = \<lparr>start = 0, stop = 50, step = 1\<rparr> \<and>
   safe_integer 5 \<and> safe_integer 10 \<and> safe_integer 2 \<and> safe_integer (5 * 2) \<and>
   safe_integer (10 + 5 * 2) \<and>
   safe_integer 49 \<and> safe_integer 0 \<and> safe_integer 1 \<and> safe_integer (49 * 1) \<and>
   safe_integer (0 + 49 * 1) \<and>
   data RowHeader 5 49 model_sliced = (Inr (Str ''20''), model_sliced) \<and>
   data ColumnHeader 5 49 model_sliced = (Inr (Str ''49''), model_sliced) \<and>
   data CornerHeader 5 49 model_sliced = (Inr Null, model_sliced)"
proof -
  have mt: "meta model_sliced = Some meta_sliced"
    by (simp add: model_sliced_def init_def refresh_impl_eq)
  have len: "0 < length (vislabels meta_sliced)" "1 < length (vislabels meta_sliced)"
    by (simp_all add: meta_sliced_def)
  have nth: "vislabels meta_sliced ! 0 = \<lparr>start = 10, stop = 110, step = 2\<rparr>"
    "vislabels meta_sliced ! 1 = \<lparr>start = 0, stop = 50, step = 1\<rparr>"
    by (simp_all add: meta_sliced_def)
  have safe: "safe_integer 5" "safe_integer 10" "safe_integer 2" "safe_integer (5 * 2)"
    "safe_integer (10 + 5 * 2)" "safe_integer 49" "safe_integer 0" "safe_integer 1"
    "safe_integer (49 * 1)" "safe_integer (0 + 49 * 1)"
    by (simp_all add: safe_integer_def)
  note t = header_labels [of 5 model_sliced 49]
  from t mt len nth have rs: "rowSlice model_sliced = \<lparr>start = 10, stop = 110, step = 2\<rparr>"
    by metis
  from t mt len nth have cs: "colSlice model_sliced = \<lparr>start = 0, stop = 50, step = 1\<rparr>"
    by metis
  have strs: "num_to_string (10 + 5 * 2) = ''20''" "num_to_string (0 + 49 * 1) = ''49''"
    by (simp_all add: num_to_string_def nat_digits.simps digit_char_def)
  from t rs safe have "data RowHeader 5 49 model_sliced =
      (Inr (Str (num_to_string (10 + 5 * 2))), model_sliced)"
    by simp
  with strs have r5: "data RowHeader 5 49 model_sliced = (Inr (Str ''20''), model_sliced)"
    by simp
  from t cs safe have "data ColumnHeader 5 49 model_sliced =
      (Inr (Str (num_to_string (0 + 49 * 1))), model_sliced)"
    by simp
  with strs have c49: "data ColumnHeader 5 49 model_sliced = (Inr (Str ''49''), model_sliced)"
    by simp
  from t have corner: "data CornerHeader 5 49 model_sliced = (Inr Null, model_sliced)"
    by blast
  from mt len rs cs safe r5 c49 corner show ?thesis by blast
qed

subsection \<open>The signal of a resolved block\<close>

text \<open>
  A block fetch set up by \<open>_fetchBlock\<close> covers the rows from
  \<open>rowBlock * blockSize\<close> up to
  \<open>min (rowBlock * blockSize + blockSize) (rowCount("body"))\<close>, and the columns likewise,
  the counts being read when the fetch is set up. When its data arrive and the handler
  finds the row object of the block, exactly one signal is emitted: cells-changed with
  that origin and those spans, and the block holds the data. The handler finds the row
  object whenever no invalidation has come between the setting up and the arrival.
\<close>

lemma cells_changed_clipped:
  assumes issued: "fst (fetchBlock rowBlock colBlock m) = Inr ()"
    and f: "f = last (data_inflight (snd (fetchBlock rowBlock colBlock m)))"
    and resolved: "fst (fetchBlock_then f d m1) = Inr ()"
  shows "f_row f = rowBlock * blockSize \<and>
         f_rowStop f = min (rowBlock * blockSize + blockSize) (rowCount RBody m) \<and>
         f_column f = colBlock * blockSize \<and>
         f_colStop f = min (colBlock * blockSize + blockSize) (columnCount CBody m) \<and>
         emitted (snd (fetchBlock_then f d m1)) =
           emitted m1 @
             [CellsChanged (rowBlock * blockSize) (colBlock * blockSize)
                (min (rowBlock * blockSize + blockSize) (rowCount RBody m) -
                   rowBlock * blockSize)
                (min (colBlock * blockSize + blockSize) (columnCount CBody m) -
                   colBlock * blockSize)] \<and>
         block_state (snd (fetchBlock_then f d m1)) rowBlock colBlock = Some (Loaded d) \<and>
         (\<forall>es. list_all (\<lambda>e. \<not> invalidating e) es \<longrightarrow>
            fst (fetchBlock_then f d (run es (snd (fetchBlock rowBlock colBlock m)))) =
              Inr ()) \<and>
         emitted (run [DataE Body 100 0, DataSettledE 0 (Inr g)] model_250_50) =
           emitted model_250_50 @ [CellsChanged 100 0 100 50] \<and>
         f_row (last (data_inflight (run [DataE Body 200 0] model_250_50))) = 200 \<and>
         f_rowStop (last (data_inflight (run [DataE Body 200 0] model_250_50))) = 250 \<and>
         emitted (run [DataE Body 200 0, DataSettledE 0 (Inr g)] model_250_50) =
           emitted model_250_50 @ [CellsChanged 200 0 50 50]"
proof -
  from issued obtain ro where ro: "blocks m rowBlock = Some ro"
    by (auto simp add: fetchBlock_ok_iff)
  note fb = fetchBlock_present [OF ro, of colBlock]
  from f have fields:
    "f_rowBlock f = rowBlock" "f_colBlock f = colBlock"
    "f_row f = rowBlock * blockSize" "f_column f = colBlock * blockSize"
    "f_rowStop f = min (rowBlock * blockSize + blockSize) (rowCount RBody m)"
    "f_colStop f = min (colBlock * blockSize + blockSize) (columnCount CBody m)"
    by (simp_all add: fb)
  from resolved obtain ro1 where ro1: "blocks m1 rowBlock = Some ro1"
    by (auto simp add: fetchBlock_then_ok_iff fields)
  have general: "f_row f = rowBlock * blockSize \<and>
         f_rowStop f = min (rowBlock * blockSize + blockSize) (rowCount RBody m) \<and>
         f_column f = colBlock * blockSize \<and>
         f_colStop f = min (colBlock * blockSize + blockSize) (columnCount CBody m) \<and>
         emitted (snd (fetchBlock_then f d m1)) =
           emitted m1 @
             [CellsChanged (rowBlock * blockSize) (colBlock * blockSize)
                (min (rowBlock * blockSize + blockSize) (rowCount RBody m) -
                   rowBlock * blockSize)
                (min (colBlock * blockSize + blockSize) (columnCount CBody m) -
                   colBlock * blockSize)] \<and>
         block_state (snd (fetchBlock_then f d m1)) rowBlock colBlock = Some (Loaded d)"
    by (simp add: fields fetchBlock_then_def ro1 block_state_def)
  have normal: "fst (fetchBlock_then f d (run es (snd (fetchBlock rowBlock colBlock m)))) =
      Inr ()"
    if "list_all (\<lambda>e. \<not> invalidating e) es" for es
  proof -
    have "blocks (snd (fetchBlock rowBlock colBlock m)) rowBlock \<noteq> None"
      by (simp add: fb)
    from run_keeps_row [OF this that] show ?thesis
      by (simp add: fetchBlock_then_ok_iff fields)
  qed
  have b10: "emitted (run [DataE Body 100 0, DataSettledE 0 (Inr g)] model_250_50) =
      emitted model_250_50 @ [CellsChanged 100 0 100 50]"
    by (simp add: eval_defs)
  have b20: "f_row (last (data_inflight (run [DataE Body 200 0] model_250_50))) = 200"
    "f_rowStop (last (data_inflight (run [DataE Body 200 0] model_250_50))) = 250"
    "emitted (run [DataE Body 200 0, DataSettledE 0 (Inr g)] model_250_50) =
       emitted model_250_50 @ [CellsChanged 200 0 50 50]"
    by (simp_all add: eval_defs)
  from general normal b10 b20 show ?thesis by blast
qed

text \<open>
  C3: every block whose fetch resolves successfully should give exactly one cells-changed
  signal with the clipped spans. On the 250 by 50 grid the fetch of block (1, 0) does so
  when nothing comes between: cells-changed at row 100, column 0 with spans 100 and 50.
  When a refresh completes while the fetch is in flight, the shape still being 250 by
  50, the data arrive in a cache without the row object: the handler throws a TypeError
  at \<open>this._blocks[rowBlock][colBlock] = data\<close>, no signal is emitted and the block
  stays absent.
\<close>

theorem overtaken_fetch_emits_nothing:
  "emitted (run [DataE Body 100 0, DataSettledE 0 (Inr g)] model_250_50) =
     emitted model_250_50 @ [CellsChanged 100 0 100 50] \<and>
   rowCount RBody refresh_overtakes_block_1_0 = 250 \<and>
   columnCount CBody refresh_overtakes_block_1_0 = 50 \<and>
   length (data_inflight refresh_overtakes_block_1_0) = 1 \<and>
   f_rowBlock (data_inflight refresh_overtakes_block_1_0 ! 0) = 1 \<and>
   f_colBlock (data_inflight refresh_overtakes_block_1_0 ! 0) = 0 \<and>
   fetch_settled (data_inflight refresh_overtakes_block_1_0 ! 0) (Inr g)
       refresh_overtakes_block_1_0 =
     (Inl TypeError, refresh_overtakes_block_1_0) \<and>
   emitted (apply_event (DataSettledE 0 (Inr g)) refresh_overtakes_block_1_0) =
     emitted refresh_overtakes_block_1_0 \<and>
   emitted (apply_event (DataSettledE 0 (Inr g)) refresh_overtakes_block_1_0) \<noteq>
     emitted refresh_overtakes_block_1_0 @ [CellsChanged 100 0 100 50] \<and>
   block_state (apply_event (DataSettledE 0 (Inr g)) refresh_overtakes_block_1_0) 1 0 = None"
proof -
  have normal: "emitted (run [DataE Body 100 0, DataSettledE 0 (Inr g)] model_250_50) =
      emitted model_250_50 @ [CellsChanged 100 0 100 50]"
    by (simp add: eval_defs)
  have st: "rowCount RBody refresh_overtakes_block_1_0 = 250"
    "columnCount CBody refresh_overtakes_block_1_0 = 50"
    "length (data_inflight refresh_overtakes_block_1_0) = 1"
    "f_rowBlock (data_inflight refresh_overtakes_block_1_0 ! 0) = 1"
    "f_colBlock (data_inflight refresh_overtakes_block_1_0 ! 0) = 0"
    "blocks refresh_overtakes_block_1_0 = Map.empty"
    by (simp_all add: refresh_overtakes_block_1_0_def eval2)
  from st(6) have thrown: "fetch_settled (data_inflight refresh_overtakes_block_1_0 ! 0) (Inr g)
       refresh_overtakes_block_1_0 = (Inl TypeError, refresh_overtakes_block_1_0)"
    by (simp add: fetch_settled_def fetchBlock_then_absent)
  from st(3) st(6) have after:
    "emitted (apply_event (DataSettledE 0 (Inr g)) refresh_overtakes_block_1_0) =
       emitted refresh_overtakes_block_1_0"
    "block_state (apply_event (DataSettledE 0 (Inr g)) refresh_overtakes_block_1_0) 1 0 = None"
    by (simp_all add: fetch_settled_def fetchBlock_then_absent block_state_def)
  from after(1) have differs:
    "emitted (apply_event (DataSettledE 0 (Inr g)) refresh_overtakes_block_1_0) \<noteq>
       emitted refresh_overtakes_block_1_0 @ [CellsChanged 100 0 100 50]"
    by simp
  from normal st(1-5) thrown after differs show ?thesis by blast
qed

subsection \<open>The range requested and the range notified\<close>



subsection \<open>A fetch that outlives a refresh\<close>

text \<open>
  C4: \<open>_refresh\<close> leaves the fetches in flight as they are. It also leaves the block
  cache empty, and in an empty cache the handler of a fetch that resolves cannot store
  its data: \<open>this._blocks[rowBlock]\<close> is undefined, the assignment throws a TypeError,
  nothing is written and no cells-changed signal is emitted. So it is for the fetch of
  block (0, 0) that a refresh has overtaken.
\<close>

theorem stale_fetch_handler_throws:
  "data_inflight (refresh_impl mt m) = data_inflight m \<and>
   fetchBlock_then f d (refresh_impl mt m) = (Inl TypeError, refresh_impl mt m) \<and>
   data_inflight refreshed_while_fetching = data_inflight (run [DataE Body 0 0] model_250_50) \<and>
   length (data_inflight refreshed_while_fetching) = 1 \<and>
   f_rowBlock (data_inflight refreshed_while_fetching ! 0) = 0 \<and>
   f_colBlock (data_inflight refreshed_while_fetching ! 0) = 0 \<and>
   fetch_settled (data_inflight refreshed_while_fetching ! 0) (Inr g)
       refreshed_while_fetching =
     (Inl TypeError, refreshed_while_fetching) \<and>
   emitted (apply_event (DataSettledE 0 (Inr g)) refreshed_while_fetching) =
     emitted refreshed_while_fetching \<and>
   block_state (apply_event (DataSettledE 0 (Inr g)) refreshed_while_fetching) 0 0 = None"
proof -
  have gen: "data_inflight (refresh_impl mt m) = data_inflight m"
    "fetchBlock_then f d (refresh_impl mt m) = (Inl TypeError, refresh_impl mt m)"
    by (simp_all add: refresh_impl_eq fetchBlock_then_absent)
  have ex: "data_inflight refreshed_while_fetching =
      data_inflight (run [DataE Body 0 0] model_250_50)"
    "length (data_inflight refreshed_while_fetching) = 1"
    "f_rowBlock (data_inflight refreshed_while_fetching ! 0) = 0"
    "f_colBlock (data_inflight refreshed_while_fetching ! 0) = 0"
    "blocks refreshed_while_fetching = Map.empty"
    by (simp_all add: refreshed_while_fetching_def eval2)
  from ex(5) have thrown: "fetch_settled (data_inflight refreshed_while_fetching ! 0) (Inr g)
       refreshed_while_fetching = (Inl TypeError, refreshed_while_fetching)"
    by (simp add: fetch_settled_def fetchBlock_then_absent)
  from ex(2) ex(5) have after:
    "emitted (apply_event (DataSettledE 0 (Inr g)) refreshed_while_fetching) =
       emitted refreshed_while_fetching"
    "block_state (apply_event (DataSettledE 0 (Inr g)) refreshed_while_fetching) 0 0 = None"
    by (simp_all add: fetch_settled_def fetchBlock_then_absent block_state_def)
  from gen ex(1-4) thrown after show ?thesis by blast
qed

subsection \<open>A failed block fetch\<close>

text \<open>
  C6, as stated, fails: a block whose fetch has failed does not stay pending until the
  next invalidation when a fetch of the same block from before the last invalidation is
  still in flight. Here the second fetch of block (0, 0) has failed and the block is
  pending; the first fetch then resolves: without any invalidation the block becomes
  resolved with its data, and a query of the block returns a cell, not null.
\<close>

theorem failed_fetch_block_resolved_by_stale_fetch:
  "f_rowBlock (data_inflight (run [DataE Body 0 0] refreshed_while_fetching) ! 1) = 0 \<and>
   f_colBlock (data_inflight (run [DataE Body 0 0] refreshed_while_fetching) ! 1) = 0 \<and>
   block_state refetch_failed 0 0 = Some Busy \<and>
   length (data_inflight refetch_failed) = 1 \<and>
   \<not> invalidating (DataSettledE 0 (Inr grid_100_50) :: int event) \<and>
   block_state (apply_event (DataSettledE 0 (Inr grid_100_50)) refetch_failed) 0 0 =
     Some (Loaded grid_100_50) \<and>
   fst (data Body 0 0 (apply_event (DataSettledE 0 (Inr grid_100_50)) refetch_failed)) =
     Inr (Cell 7) \<and>
   fst (data Body 0 0 (apply_event (DataSettledE 0 (Inr grid_100_50)) refetch_failed)) \<noteq>
     Inr Null"
proof -
  have st: "blocks refetch_failed = [0 \<mapsto> [0 \<mapsto> Busy]]"
    "length (data_inflight refetch_failed) = 1"
    "f_rowBlock (data_inflight refetch_failed ! 0) = 0"
    "f_colBlock (data_inflight refetch_failed ! 0) = 0"
    by (simp_all add: refetch_failed_def refreshed_while_fetching_def eval2)
  have failed:
    "f_rowBlock (data_inflight (run [DataE Body 0 0] refreshed_while_fetching) ! 1) = 0"
    "f_colBlock (data_inflight (run [DataE Body 0 0] refreshed_while_fetching) ! 1) = 0"
    by (simp_all add: refreshed_while_fetching_def eval2)
  from st(1) have busy: "block_state refetch_failed 0 0 = Some Busy"
    by (simp add: block_state_def)
  from st have loaded:
    "blocks (apply_event (DataSettledE 0 (Inr grid_100_50)) refetch_failed) =
       [0 \<mapsto> [0 \<mapsto> Loaded grid_100_50]]"
    by (simp add: fetch_settled_def fetchBlock_then_def)
  then have bs: "block_state (apply_event (DataSettledE 0 (Inr grid_100_50)) refetch_failed)
      0 0 = Some (Loaded grid_100_50)"
    by (simp add: block_state_def)
  have cell: "cell_at grid_100_50 0 0 = Inr (Cell 7)"
    by (simp add: cell_at_def js_nth_def grid_100_50_def)
  from loaded cell
  have q: "fst (data Body 0 0 (apply_event (DataSettledE 0 (Inr grid_100_50)) refetch_failed)) =
      Inr (Cell 7)"
    by (simp add: data_def Let_def js_rem_def blockSize_def)
  from failed busy st(2) bs q show ?thesis by simp
qed

text \<open>
  C6, amended: a rejected block fetch changes nothing in the model and emits nothing (the
  rejection reaches no caller: it only ends the promise); a pending block stays pending,
  and every query of a cell of it returns null and sends no request, through any
  sequence of events that holds neither an invalidation nor the delivery of data by
  another fetch of the same block.
\<close>

theorem failed_fetch_leaves_block_pending:
  assumes k: "k < length (data_inflight m)"
    and busy: "block_state m rowBlock colBlock = Some Busy"
    and es: "undisturbed rowBlock colBlock es (apply_event (DataSettledE k (Inl err)) m)"
    and cell: "0 \<le> row" "row div blockSize = rowBlock" "0 \<le> col"
      "col div blockSize = colBlock"
  shows "fetch_settled (data_inflight m ! k) (Inl err) m = (Inl err, m) \<and>
         apply_event (DataSettledE k (Inl err)) m =
           m\<lparr>data_inflight := take_out k (data_inflight m)\<rparr> \<and>
         emitted (apply_event (DataSettledE k (Inl err)) m) = emitted m \<and>
         block_state (run es (apply_event (DataSettledE k (Inl err)) m)) rowBlock colBlock =
           Some Busy \<and>
         data Body row col (run es (apply_event (DataSettledE k (Inl err)) m)) =
           (Inr Null, run es (apply_event (DataSettledE k (Inl err)) m))"
proof -
  let ?m1 = "apply_event (DataSettledE k (Inl err)) m"
  have m1: "?m1 = m\<lparr>data_inflight := take_out k (data_inflight m)\<rparr>"
    using k by (rule failed_fetch_step)
  from busy have "block_state ?m1 rowBlock colBlock = Some Busy"
    unfolding m1 by (simp add: block_state_def)
  from run_keeps_pending [OF this es]
  have later: "block_state (run es ?m1) rowBlock colBlock = Some Busy" .
  from cell have "block_state (run es ?m1) ((row - js_rem row blockSize) div blockSize)
      ((col - js_rem col blockSize) div blockSize) = Some Busy"
    by (simp only: block_index_nonneg later)
  then have "data Body row col (run es ?m1) = (Inr Null, run es ?m1)"
    by (rule data_Body_pending)
  moreover have "emitted ?m1 = emitted m"
    unfolding m1 by simp
  moreover have "fetch_settled (data_inflight m ! k) (Inl err) m = (Inl err, m)"
    by (simp add: fetch_settled_def)
  ultimately show ?thesis
    using later m1 by blast
qed

theorem failed_fetch_leaves_block_pending_witness:
  "(0::nat) < length (data_inflight (run [DataE Body 0 0] model_250_50)) \<and>
   block_state (run [DataE Body 0 0] model_250_50) 0 0 = Some Busy \<and>
   undisturbed 0 0 [DataE Body 5 5, DataE Body 150 7, RefreshE, DataE Body 99 49]
     (apply_event (DataSettledE 0 (Inl (RequestError ''timeout'')))
        (run [DataE Body 0 0] model_250_50)) \<and>
   (0::int) \<le> 99 \<and> 99 div blockSize = 0 \<and> (0::int) \<le> 49 \<and> 49 div blockSize = 0 \<and>
   emitted (apply_event (DataSettledE 0 (Inl (RequestError ''timeout'')))
        (run [DataE Body 0 0] model_250_50)) =
     emitted (run [DataE Body 0 0] model_250_50) \<and>
   block_state
     (run [DataE Body 5 5, DataE Body 150 7, RefreshE, DataE Body 99 49]
        (apply_event (DataSettledE 0 (Inl (RequestError ''timeout'')))
           (run [DataE Body 0 0] model_250_50))) 0 0 = Some Busy \<and>
   fst (data Body 99 49
     (run [DataE Body 5 5, DataE Body 150 7, RefreshE, DataE Body 99 49]
        (apply_event (DataSettledE 0 (Inl (RequestError ''timeout'')))
           (run [DataE Body 0 0] model_250_50)))) = Inr Null"
proof -
  let ?m = "run [DataE Body 0 0] model_250_50"
  let ?err = "RequestError ''timeout''"
  let ?es = "[DataE Body 5 5, DataE Body 150 7, RefreshE, DataE Body 99 49 :: int event]"
  have k: "(0::nat) < length (data_inflight ?m)"
    by (simp add: eval2)
  have busy: "block_state ?m 0 0 = Some Busy"
    by (simp add: eval2)
  have es: "undisturbed 0 0 ?es (apply_event (DataSettledE 0 (Inl ?err)) ?m)"
    by (simp add: eval2)
  have cell: "(0::int) \<le> 99" "99 div blockSize = 0" "(0::int) \<le> 49" "49 div blockSize = 0"
    by (simp_all add: blockSize_def)
  note t = failed_fetch_leaves_block_pending [OF k busy es cell]
  from t have a: "emitted (apply_event (DataSettledE 0 (Inl ?err)) ?m) = emitted ?m"
    by blast
  from t have b: "block_state (run ?es (apply_event (DataSettledE 0 (Inl ?err)) ?m)) 0 0 =
      Some Busy"
    by blast
  from t have "data Body 99 49 (run ?es (apply_event (DataSettledE 0 (Inl ?err)) ?m)) =
      (Inr Null, run ?es (apply_event (DataSettledE 0 (Inl ?err)) ?m))"
    by blast
  then have c: "fst (data Body 99 49 (run ?es (apply_event (DataSettledE 0 (Inl ?err)) ?m))) =
      Inr Null"
    by simp
  from k busy es cell a b c show ?thesis by blast
qed

end
